theory Spec2Isabelle
  imports Complex_Main
begin

section \<open>Time values and durations (package time, as used by pct/backoff.go)\<close>

text \<open>
  A \<open>time.Duration\<close> is a signed 64-bit count of nanoseconds. A \<open>time.Time\<close> is
  modelled by the number of nanoseconds since the zero instant (January 1, year 1,
  00:00:00 UTC), so that \<open>IsZero\<close> is the comparison with 0.
\<close>

type_synonym Duration = int
type_synonym Time = int

definition wrap64 :: "int \<Rightarrow> int" where
  "wrap64 x = (x + 2 ^ 63) mod 2 ^ 64 - 2 ^ 63"

definition minDuration :: Duration where
  "minDuration = - (2 ^ 63)"

definition maxDuration :: Duration where
  "maxDuration = 2 ^ 63 - 1"

definition Millisecond :: Duration where
  "Millisecond = 1000000"

definition Second :: Duration where
  "Second = 1000000000"

definition IsZero :: "Time \<Rightarrow> bool" where
  "IsZero t = (t = 0)"

text \<open>\<open>t.Sub(u)\<close> is \<open>t - u\<close>, saturated at the largest and smallest duration.\<close>

definition Sub :: "Time \<Rightarrow> Time \<Rightarrow> Duration" where
  "Sub t u =
     (let d = t - u
      in if d < minDuration then minDuration
         else if maxDuration < d then maxDuration
         else d)"

section \<open>IEEE 754 binary64 arithmetic on the values Wait computes\<close>

text \<open>
  Go's \<open>float64\<close> operations return the exact result rounded to the nearest
  binary64 number, ties to the even significand. Finite values are rationals here;
  \<open>f64_round\<close> is that rounding (53-bit significand, gradual underflow below
  \<open>2 powi (-1022)\<close>; overflow does not arise for the values of this program).
\<close>

fun floor_log2 :: "nat \<Rightarrow> nat" where
  "floor_log2 n = (if n < 2 then 0 else Suc (floor_log2 (n div 2)))"

declare floor_log2.simps [simp del]

definition f64_exponent :: "rat \<Rightarrow> int" where
  "f64_exponent x =
     (let a = \<bar>x\<bar>;
          e = (if 1 \<le> a then int (floor_log2 (nat \<lfloor>a\<rfloor>))
               else - int (Suc (floor_log2 (nat (\<lceil>1 / a\<rceil> - 1)))))
      in max e (- 1022))"

definition f64_round :: "rat \<Rightarrow> rat" where
  "f64_round x =
     (if x = 0 then 0
      else let u = 2 powi (f64_exponent x - 52);
               q = x / u;
               n = \<lfloor>q\<rfloor>;
               d = q - of_int n
           in (if d < 1 / 2 then of_int n
               else if 1 / 2 < d then of_int (n + 1)
               else if even n then of_int n else of_int (n + 1)) * u)"

definition f64_add :: "rat \<Rightarrow> rat \<Rightarrow> rat" where
  "f64_add x y = f64_round (x + y)"

definition f64_sub :: "rat \<Rightarrow> rat \<Rightarrow> rat" where
  "f64_sub x y = f64_round (x - y)"

definition f64_mul :: "rat \<Rightarrow> rat \<Rightarrow> rat" where
  "f64_mul x y = f64_round (x * y)"

text \<open>\<open>float64(n)\<close> for an integer \<open>n\<close>.\<close>

definition f64_of_int :: "int \<Rightarrow> rat" where
  "f64_of_int n = f64_round (of_int n)"

text \<open>
  \<open>math.Pow(2, y)\<close> at an integer-valued \<open>y\<close> (the only arguments Wait passes):
  the power of two, rounded.
\<close>

definition math_Pow2 :: "rat \<Rightarrow> rat" where
  "math_Pow2 y = f64_round (2 powi \<lfloor>y\<rfloor>)"

text \<open>\<open>int(x)\<close> for a \<open>float64\<close> \<open>x\<close> in range: the fraction is discarded.\<close>

definition int_of_f64 :: "rat \<Rightarrow> int" where
  "int_of_f64 x = (if 0 \<le> x then \<lfloor>x\<rfloor> else \<lceil>x\<rceil>)"

section \<open>pct.Backoff\<close>

text \<open>
  The struct of pct/backoff.go. The field \<open>try\<close> is named \<open>try_count\<close> (the source's
  name is a keyword of Isabelle). \<open>NowFunc\<close> maps the wall clock to the time it
  reports; \<open>NewBackoff\<close> installs \<open>time.Now\<close>, the identity.
\<close>

record Backoff =
  try_count :: int
  lastSuccess :: Time
  resetAfter :: Duration
  NowFunc :: "Time \<Rightarrow> Time"

definition NewBackoff :: "Duration \<Rightarrow> Backoff" where
  "NewBackoff ra = \<lparr>try_count = 0, lastSuccess = 0, resetAfter = ra, NowFunc = (\<lambda>t. t)\<rparr>"

text \<open>
  \<open>Wait rnd b\<close>: the argument \<open>rnd\<close> is the value \<open>rand.Float64()\<close> returns when
  the third branch calls it. The result is the duration and the updated struct.
\<close>

definition Wait :: "rat \<Rightarrow> Backoff \<Rightarrow> Duration \<times> Backoff" where
  "Wait rnd b =
     (if try_count b = 0 then
        (wrap64 (0 * Second), b\<lparr>try_count := wrap64 (try_count b + 1)\<rparr>)
      else if try_count b < 7 then
        (wrap64 (int_of_f64 (f64_sub (math_Pow2 (f64_of_int (try_count b))) 1) * Second),
         b\<lparr>try_count := wrap64 (try_count b + 1)\<rparr>)
      else
        (wrap64 (int_of_f64 (f64_add 90 (f64_mul 90 rnd)) * Second), b))"

text \<open>Successive calls of \<open>Wait\<close>, one random value for each call.\<close>

fun Waits :: "rat list \<Rightarrow> Backoff \<Rightarrow> Duration list \<times> Backoff" where
  "Waits [] b = ([], b)"
| "Waits (r # rs) b =
     (case Wait r b of (d, b') \<Rightarrow>
        (case Waits rs b' of (ds, b'') \<Rightarrow> (d # ds, b'')))"

text \<open>
  \<open>Success now b\<close>: \<open>now\<close> is the wall clock at the call, which \<open>time.Now()\<close>
  returns and \<open>b.NowFunc()\<close> is computed from.
\<close>

definition Success :: "Time \<Rightarrow> Backoff \<Rightarrow> Backoff" where
  "Success now b =
     (if IsZero (lastSuccess b) then
        b\<lparr>lastSuccess := now\<rparr>
      else if resetAfter b < Sub (lastSuccess b) (NowFunc b now) then
        b\<lparr>lastSuccess := now, try_count := 0\<rparr>
      else b)"

text \<open>
  January 1, 2015, 00:00:00 UTC; and the instance the MySQL collector creates
  (\<open>pct.NewBackoff(5 * time.Second)\<close>), after three attempts and a first success at
  that time.
\<close>

definition new_year_2015 :: Time where
  "new_year_2015 = 63555667200 * Second"

definition flapping_backoff :: Backoff where
  "flapping_backoff =
     (NewBackoff (5 * Second))\<lparr>try_count := 3, lastSuccess := new_year_2015\<rparr>"

text \<open>The largest binary64 number below 1.\<close>

definition f64_below_one :: rat where
  "f64_below_one = 1 - 1 / 2 ^ 53"

section \<open>mrms/monitor: the MySQL restart monitor\<close>

text \<open>
  Channels and connections are heap objects; each is modelled by the number it gets when
  it is made. The connections made by the connection factory live in the map
  \<open>connectors\<close>, which outlasts the instance records that point into it.
\<close>

type_synonym chan_id = nat
type_synonym conn_id = nat

datatype error = ConnectError string | FingerprintError string | UnknownTargetError string

record Connector =
  DSN :: string
  opened :: bool

text \<open>
  Modelled from the spec: the type \<open>Subscribers\<close> of package monitor and its methods
  (\<open>NewSubscribers\<close>, \<open>Add\<close>, \<open>Remove\<close>, \<open>Empty\<close>, \<open>GlobalAdd\<close>,
  \<open>GlobalRemove\<close>), which monitor.go calls and whose source file is not at hand. Per
  target, a set of notification channels, and the registration on the merged global
  stream, tagged with the target identity. \<open>Add\<close> makes a new channel and registers it; \<open>Remove\<close>
  unregisters a handle; \<open>GlobalAdd\<close> fails with \<open>UnknownTargetError\<close> on a registry
  without a direct subscriber; \<open>GlobalRemove\<close> unregisters the target from the global
  stream, whatever the direct handles.
\<close>

record Subscribers =
  subscribers :: "chan_id set"
  globalSubscribers :: "string \<rightharpoonup> chan_id"

definition NewSubscribers :: Subscribers where
  "NewSubscribers = \<lparr>subscribers = {}, globalSubscribers = Map.empty\<rparr>"

definition Subscribers_Add :: "chan_id \<Rightarrow> Subscribers \<Rightarrow> chan_id \<times> Subscribers" where
  "Subscribers_Add fresh s = (fresh, s\<lparr>subscribers := insert fresh (subscribers s)\<rparr>)"

definition Subscribers_Remove :: "chan_id \<Rightarrow> Subscribers \<Rightarrow> Subscribers" where
  "Subscribers_Remove c s = s\<lparr>subscribers := subscribers s - {c}\<rparr>"

definition Subscribers_Empty :: "Subscribers \<Rightarrow> bool" where
  "Subscribers_Empty s = (subscribers s = {})"

definition GlobalAdd :: "chan_id \<Rightarrow> string \<Rightarrow> Subscribers \<Rightarrow> error + Subscribers" where
  "GlobalAdd c dsn s =
     (if subscribers s = {} then Inl (UnknownTargetError dsn)
      else Inr (s\<lparr>globalSubscribers := (globalSubscribers s)(dsn \<mapsto> c)\<rparr>))"

definition GlobalRemove :: "string \<Rightarrow> Subscribers \<Rightarrow> Subscribers" where
  "GlobalRemove dsn s = s\<lparr>globalSubscribers := (globalSubscribers s)(dsn := None)\<rparr>"

text \<open>
  Modelled from the spec: the type \<open>MysqlInstance\<close> of package monitor, its constructor
  \<open>NewMysqlInstance\<close> and its method \<open>CheckIfMysqlRestarted\<close>, which monitor.go calls
  and whose source file is not at hand. The record has the connection handle, the subscribers and the
  fingerprint last read. The constructor opens the connection; a failure to open is
  returned as the error, with no instance. The check reads a fresh fingerprint: a failed
  read is the error; a reading lower than the stored one is a restart; the reading is
  stored. What the connection answers is the environment's: \<open>open_result\<close> for the
  opening, \<open>reading\<close> for the fingerprint.
\<close>

record MysqlInstance =
  mysqlConn :: conn_id
  Subscribers :: Subscribers
  lastFingerprint :: "nat option"

definition NewMysqlInstance ::
  "error option \<Rightarrow> conn_id \<Rightarrow> Subscribers \<Rightarrow> (conn_id \<rightharpoonup> Connector) \<Rightarrow>
     (error + MysqlInstance) \<times> (conn_id \<rightharpoonup> Connector)" where
  "NewMysqlInstance open_result c subs cs =
     (case open_result of
        Some err \<Rightarrow> (Inl err, cs)
      | None \<Rightarrow>
          (Inr \<lparr>mysqlConn = c, Subscribers = subs, lastFingerprint = None\<rparr>,
           (case cs c of None \<Rightarrow> cs | Some k \<Rightarrow> cs(c \<mapsto> k\<lparr>opened := True\<rparr>))))"

definition CheckIfMysqlRestarted ::
  "error + nat \<Rightarrow> MysqlInstance \<Rightarrow> (error + bool) \<times> MysqlInstance" where
  "CheckIfMysqlRestarted reading mi =
     (case reading of
        Inl err \<Rightarrow> (Inl err, mi)
      | Inr fp \<Rightarrow>
          (Inr (case lastFingerprint mi of None \<Rightarrow> False | Some old \<Rightarrow> fp < old),
           mi\<lparr>lastFingerprint := Some fp\<rparr>))"

text \<open>
  The struct \<open>Monitor\<close> of mrms/monitor/monitor.go: the instance map and the global
  channel, with the heap of connections made by \<open>mysqlConnFactory\<close> and the number of
  channels made so far. The logger, the status and the lock are not part of the state.
\<close>

record Monitor =
  mysqlInstances :: "string \<rightharpoonup> MysqlInstance"
  globalChan :: chan_id
  connectors :: "conn_id \<rightharpoonup> Connector"
  conns_made :: nat
  chans_made :: nat

definition NewMonitor :: Monitor where
  "NewMonitor =
     \<lparr>mysqlInstances = Map.empty, globalChan = 0, connectors = Map.empty,
      conns_made = 0, chans_made = 1\<rparr>"

text \<open>
  \<open>createMysqlInstance\<close>: \<open>mysqlConnFactory.Make(dsn)\<close> makes a connection that is
  not yet open, \<open>NewSubscribers\<close> an empty registry, and the result is that of
  \<open>NewMysqlInstance\<close>.
\<close>

definition createMysqlInstance ::
  "error option \<Rightarrow> string \<Rightarrow> Monitor \<Rightarrow> (error + MysqlInstance) \<times> Monitor" where
  "createMysqlInstance open_result dsn m =
     (let c = conns_made m;
          cs = (connectors m)(c \<mapsto> \<lparr>DSN = dsn, opened = False\<rparr>);
          subscribers = NewSubscribers
      in case NewMysqlInstance open_result c subscribers cs of
           (r, cs') \<Rightarrow> (r, m\<lparr>connectors := cs', conns_made := Suc c\<rparr>))"

text \<open>
  \<open>Add\<close>. The result is \<open>Inl err\<close> for \<open>(nil, err)\<close> and \<open>Inr c\<close> for
  \<open>(c, nil)\<close>. The \<open>Debug\<close> lines of \<open>Add\<close>, \<open>Remove\<close> and
  \<open>GlobalSubscribe\<close> write to the logger only and are left out.
\<close>

definition Add :: "error option \<Rightarrow> string \<Rightarrow> Monitor \<Rightarrow> (error + chan_id) \<times> Monitor" where
  "Add open_result dsn m =
     (case (case mysqlInstances m dsn of
              Some mi \<Rightarrow> (Inr mi, m)
            | None \<Rightarrow>
                (case createMysqlInstance open_result dsn m of
                   (Inl err, m') \<Rightarrow> (Inl err, m')
                 | (Inr mi, m') \<Rightarrow>
                     (Inr mi, m'\<lparr>mysqlInstances := (mysqlInstances m')(dsn \<mapsto> mi)\<rparr>)))
      of (Inl err, m') \<Rightarrow> (Inl err, m')
       | (Inr mi, m') \<Rightarrow>
           (case Subscribers_Add (chans_made m') (Subscribers mi) of
              (c, s') \<Rightarrow>
                (Inr c,
                 m'\<lparr>mysqlInstances := (mysqlInstances m')(dsn \<mapsto> mi\<lparr>Subscribers := s'\<rparr>),
                    chans_made := Suc (chans_made m')\<rparr>)))"

text \<open>
  \<open>Remove\<close>. The instance is a pointer: \<open>GlobalRemove\<close> after the \<open>delete\<close> still
  changes the record that stays in the map when other subscribers remain.
\<close>

definition Remove :: "string \<Rightarrow> chan_id \<Rightarrow> Monitor \<Rightarrow> Monitor" where
  "Remove dsn c m =
     (case mysqlInstances m dsn of
        None \<Rightarrow> m
      | Some mi \<Rightarrow>
          (let s1 = Subscribers_Remove c (Subscribers mi);
               s2 = GlobalRemove dsn s1
           in if Subscribers_Empty s1
              then m\<lparr>mysqlInstances := (mysqlInstances m)(dsn := None)\<rparr>
              else m\<lparr>mysqlInstances := (mysqlInstances m)(dsn \<mapsto> mi\<lparr>Subscribers := s2\<rparr>)\<rparr>))"

text \<open>
  \<open>GlobalSubscribe\<close> and \<open>Check\<close> range over the map; Go fixes no order, so the
  order \<open>ks\<close> of the keys is an argument. \<open>instance.mysqlConn.DSN()\<close> reads the
  connection of the instance.
\<close>

definition instance_DSN :: "Monitor \<Rightarrow> MysqlInstance \<Rightarrow> string" where
  "instance_DSN m mi = (case connectors m (mysqlConn mi) of None \<Rightarrow> [] | Some k \<Rightarrow> DSN k)"

fun GlobalSubscribe :: "string list \<Rightarrow> Monitor \<Rightarrow> (error + chan_id) \<times> Monitor" where
  "GlobalSubscribe [] m = (Inr (globalChan m), m)"
| "GlobalSubscribe (k # ks) m =
     (case mysqlInstances m k of
        None \<Rightarrow> GlobalSubscribe ks m
      | Some mi \<Rightarrow>
          (case GlobalAdd (globalChan m) (instance_DSN m mi) (Subscribers mi) of
             Inl err \<Rightarrow> (Inl err, m)
           | Inr s' \<Rightarrow>
               GlobalSubscribe ks
                 (m\<lparr>mysqlInstances := (mysqlInstances m)(k \<mapsto> mi\<lparr>Subscribers := s'\<rparr>)\<rparr>)))"

text \<open>
  What \<open>Check\<close> does besides updating the instances: the lines it writes to the logger
  and the calls of \<open>Subscribers.Notify\<close>, each with the key of the instance it is
  called on. \<open>DebugRestarted d\<close> is the line \<open>Check:restarted:\<close> followed by \<open>d\<close>
  with its password hidden.
\<close>

datatype event =
    Debug string
  | DebugRestarted string
  | Error error
  | Notify string

fun Check_range ::
  "(string \<Rightarrow> error + nat) \<Rightarrow> string list \<Rightarrow> Monitor \<Rightarrow> event list \<times> Monitor" where
  "Check_range probe [] m = ([], m)"
| "Check_range probe (k # ks) m =
     (case mysqlInstances m k of
        None \<Rightarrow> Check_range probe ks m
      | Some mi \<Rightarrow>
          (case CheckIfMysqlRestarted (probe k) mi of
             (r, mi') \<Rightarrow>
               (let m' = m\<lparr>mysqlInstances := (mysqlInstances m)(k \<mapsto> mi')\<rparr>
                in case r of
                     Inl err \<Rightarrow>
                       (case Check_range probe ks m' of (es, m'') \<Rightarrow> (Error err # es, m''))
                   | Inr wasRestarted \<Rightarrow>
                       if wasRestarted
                       then (case Check_range probe ks m' of
                               (es, m'') \<Rightarrow>
                                 (DebugRestarted (instance_DSN m' mi') # Notify k # es, m''))
                       else Check_range probe ks m')))"

definition Check ::
  "(string \<Rightarrow> error + nat) \<Rightarrow> string list \<Rightarrow> Monitor \<Rightarrow> event list \<times> Monitor" where
  "Check probe ks m =
     (case Check_range probe ks m of
        (es, m') \<Rightarrow> (Debug ''Check:call'' # es @ [Debug ''Check:return''], m'))"

text \<open>The calls a client makes on a monitor, and a monitor after a sequence of them.\<close>

datatype call =
    CallAdd "error option" string
  | CallRemove string chan_id
  | CallGlobalSubscribe "string list"
  | CallCheck "string \<Rightarrow> error + nat" "string list"

fun do_call :: "call \<Rightarrow> Monitor \<Rightarrow> Monitor" where
  "do_call (CallAdd open_result dsn) m = snd (Add open_result dsn m)"
| "do_call (CallRemove dsn c) m = Remove dsn c m"
| "do_call (CallGlobalSubscribe ks) m = snd (GlobalSubscribe ks m)"
| "do_call (CallCheck probe ks) m = snd (Check probe ks m)"

fun do_calls :: "call list \<Rightarrow> Monitor \<Rightarrow> Monitor" where
  "do_calls [] m = m"
| "do_calls (c # cs) m = do_calls cs (do_call c m)"

text \<open>The direct subscribers of a target: those of its record, none without a record.\<close>

definition subscribers_of :: "Monitor \<Rightarrow> string \<Rightarrow> chan_id set" where
  "subscribers_of m dsn =
     (case mysqlInstances m dsn of None \<Rightarrow> {} | Some mi \<Rightarrow> subscribers (Subscribers mi))"


text \<open>A monitor with the one target \<open>a\<close>, added once; its subscriber is channel 1.\<close>

definition one_target :: Monitor where
  "one_target = snd (Add None ''a'' NewMonitor)"

text \<open>
  Two targets, each read once at fingerprint 10; then a tick on which the read of
  \<open>a\<close> fails and \<open>b\<close> reads 5.
\<close>

definition two_targets :: Monitor where
  "two_targets =
     do_calls [CallAdd None ''a'', CallAdd None ''b'', CallCheck (\<lambda>k. Inr 10) [''a'', ''b'']]
       NewMonitor"

definition probe_a_fails :: "string \<Rightarrow> error + nat" where
  "probe_a_fails k = (if k = ''a'' then Inl (FingerprintError ''a'') else Inr 5)"

definition instance_a :: MysqlInstance where
  "instance_a =
     \<lparr>mysqlConn = 0, Subscribers = \<lparr>subscribers = {1}, globalSubscribers = Map.empty\<rparr>,
      lastFingerprint = Some 10\<rparr>"

definition instance_b :: MysqlInstance where
  "instance_b =
     \<lparr>mysqlConn = 1, Subscribers = \<lparr>subscribers = {2}, globalSubscribers = Map.empty\<rparr>,
      lastFingerprint = Some 10\<rparr>"

section \<open>mysql: the metrics monitor of one MySQL instance\<close>

text \<open>
  \<open>mm.Metric\<close> and \<open>mm.Collection\<close> with the fields the monitor fills, and the
  fields of \<open>Config\<close> that \<open>run\<close> reads. A \<open>float64\<close> metric value is a rational.
\<close>

record Metric =
  Name :: string
  Type :: string
  Number :: rat

record Collection =
  Ts :: int
  Metrics :: "Metric list"

record Config =
  InstanceName :: string
  InnoDB :: string
  UserStats :: bool
  UserStatsIgnoreDb :: string

text \<open>
  The struct \<open>Monitor\<close> of package mysql (named \<open>Monitor_mysql\<close>, apart from the
  restart monitor): \<open>conn\<close> is whether the connection pointer is set, \<open>connected\<close>
  the flag that \<open>run\<close> keeps. \<open>NewMonitor\<close> leaves both at their zero values.
\<close>

record Monitor_mysql =
  config :: Config
  conn :: bool
  connected :: bool

definition NewMonitor_mysql :: "Config \<Rightarrow> Monitor_mysql" where
  "NewMonitor_mysql cfg = \<lparr>config = cfg, conn = False, connected = False\<rparr>"

text \<open>
  The four extractors query the database; what each appends to the collection, for a
  prefix, is the environment's. So is the downstream channel: \<open>accept_after\<close> is the
  time in nanoseconds after which it takes a value sent to it (\<open>None\<close>: never), and
  \<open>send_first\<close> is the case \<open>select\<close> picks when the send and the timer are ready
  at the same instant.
\<close>

datatype extractor = ShowStatusMetrics | InnoDBMetrics | TableUserStats | IndexUserStats

record tick_env =
  gathered :: "extractor \<Rightarrow> string \<Rightarrow> Metric list"
  accept_after :: "nat option"
  send_first :: bool

text \<open>The cases of the \<open>select\<close> in \<open>run\<close>, with what is received.\<close>

datatype select_case =
    TickChan Time tick_env
  | ConnectedChan bool
  | StopChan

text \<open>What \<open>run\<close> does to its collaborators, in order.\<close>

datatype effect =
    StatusUpdate string
  | LogDebug string
  | Query extractor
  | Waited Duration
  | Sent Collection
  | GoConnect
  | ConnClose
  | SyncDone

text \<open>\<open>now.UTC().Unix()\<close>: whole seconds since January 1, 1970.\<close>

definition Unix :: "Time \<Rightarrow> int" where
  "Unix t = t div Second - 62135596800"

definition prefix_of :: "Config \<Rightarrow> string" where
  "prefix_of cfg =
     (if InstanceName cfg \<noteq> [] then ''mysql'' @ ''/'' @ InstanceName cfg else ''mysql'')"

definition append_metrics :: "tick_env \<Rightarrow> string \<Rightarrow> extractor \<Rightarrow> Collection \<Rightarrow> Collection" where
  "append_metrics env prefix x c = c\<lparr>Metrics := Metrics c @ gathered env x prefix\<rparr>"

text \<open>The extractors \<open>run\<close> calls on a tick, in the order of the calls.\<close>

definition extractors :: "Config \<Rightarrow> extractor list" where
  "extractors cfg =
     [ShowStatusMetrics]
     @ (if InnoDB cfg \<noteq> [] then [InnoDBMetrics] else [])
     @ (if UserStats cfg then [TableUserStats, IndexUserStats] else [])"

definition collect :: "Config \<Rightarrow> tick_env \<Rightarrow> Time \<Rightarrow> Collection" where
  "collect cfg env now =
     foldl (\<lambda>c x. append_metrics env (prefix_of cfg) x c) \<lparr>Ts = Unix now, Metrics = []\<rparr>
       (extractors cfg)"

text \<open>
  The inner \<open>select\<close>: the send on \<open>collectionChan\<close> against
  \<open>time.After(timeout)\<close>. The result is whether the value was sent, and the time
  spent in the \<open>select\<close>.
\<close>

definition select_send :: "nat option \<Rightarrow> bool \<Rightarrow> Duration \<Rightarrow> bool \<times> Duration" where
  "select_send accept first timeout =
     (case accept of
        None \<Rightarrow> (False, timeout)
      | Some d \<Rightarrow>
          if int d < timeout \<or> (int d = timeout \<and> first) then (True, int d)
          else (False, timeout))"

definition send_timeout :: Duration where
  "send_timeout = 500 * Millisecond"

text \<open>
  One turn of the loop of \<open>run\<close>: the effects, the state, and whether \<open>run\<close>
  returns. The connector stores the connection before it sends \<open>true\<close>, so \<open>conn\<close>
  is set when \<open>true\<close> is received. On return the deferred function runs.
\<close>

fun run_select :: "Monitor_mysql \<Rightarrow> select_case \<Rightarrow> effect list \<times> Monitor_mysql \<times> bool" where
  "run_select m (TickChan now env) =
     (if \<not> connected m then ([], m, False)
      else
        (let c = collect (config m) env now
         in ([StatusUpdate ''Running'']
             @ map Query (extractors (config m))
             @ (if 0 < length (Metrics c) then
                  (case select_send (accept_after env) (send_first env) send_timeout of
                     (True, w) \<Rightarrow> [Waited w, Sent c]
                   | (False, w) \<Rightarrow>
                       [Waited w, LogDebug ''Lost MySQL metrics; timeout spooling after 500ms''])
                else [LogDebug ''No metrics''])
             @ [StatusUpdate ''Ready''],
             m, False)))"
| "run_select m (ConnectedChan b) =
     (if b then
        ([StatusUpdate ''Ready'', LogDebug ''Connected''],
         m\<lparr>connected := True, conn := True\<rparr>, False)
      else ([LogDebug ''Disconnected'', GoConnect], m\<lparr>connected := False\<rparr>, False))"
| "run_select m StopChan =
     ((if conn m then [ConnClose] else []) @ [StatusUpdate ''Stopped'', SyncDone], m, True)"

text \<open>
  The loop on the cases that arrive. When they are used up the loop is blocked in
  \<open>select\<close> and has not returned.
\<close>

fun run_loop :: "Monitor_mysql \<Rightarrow> select_case list \<Rightarrow> effect list \<times> Monitor_mysql \<times> bool" where
  "run_loop m [] = ([], m, False)"
| "run_loop m (e # es) =
     (case run_select m e of
        (out, m', True) \<Rightarrow> (out, m', True)
      | (out, m', False) \<Rightarrow>
          (case run_loop m' es of (outs, m'', r) \<Rightarrow> (out @ outs, m'', r)))"

definition run :: "Monitor_mysql \<Rightarrow> select_case list \<Rightarrow> effect list \<times> Monitor_mysql \<times> bool" where
  "run m es = (case run_loop m es of (outs, m', r) \<Rightarrow> (GoConnect # outs, m', r))"

text \<open>The effects of gathering and of delivery.\<close>

fun collecting :: "effect \<Rightarrow> bool" where
  "collecting (Query x) = True"
| "collecting (Waited w) = True"
| "collecting (Sent c) = True"
| "collecting (StatusUpdate s) = (s = ''Running'')"
| "collecting e = False"

fun sent_empty :: "effect \<Rightarrow> bool" where
  "sent_empty (Sent c) = (Metrics c = [])"
| "sent_empty e = False"

text \<open>Concrete inputs: a configuration, a metric, and three environments of a tick.\<close>

definition cfg0 :: Config where
  "cfg0 = \<lparr>InstanceName = ''db1'', InnoDB = [], UserStats = False, UserStatsIgnoreDb = []\<rparr>"

definition metric0 :: Metric where
  "metric0 = \<lparr>Name = ''mysql/db1/threads_running'', Type = ''gauge'', Number = 1\<rparr>"

definition env_never :: tick_env where
  "env_never =
     \<lparr>gathered = (\<lambda>x p. if x = ShowStatusMetrics then [metric0] else []),
      accept_after = None, send_first = False\<rparr>"

definition env_ready :: tick_env where
  "env_ready =
     \<lparr>gathered = (\<lambda>x p. if x = ShowStatusMetrics then [metric0] else []),
      accept_after = Some 0, send_first = False\<rparr>"

definition env_nothing :: tick_env where
  "env_nothing = \<lparr>gathered = (\<lambda>x p. []), accept_after = Some 0, send_first = False\<rparr>"

text \<open>
  The downstream channel does not take the value within \<open>t\<close>; and the state of a
  monitor of \<open>cfg0\<close> that has received \<open>true\<close> from its connector.
\<close>

definition not_accepted_within :: "tick_env \<Rightarrow> Duration \<Rightarrow> bool" where
  "not_accepted_within env t = (case accept_after env of None \<Rightarrow> True | Some d \<Rightarrow> t < int d)"

definition connected0 :: Monitor_mysql where
  "connected0 = fst (snd (run_select (NewMonitor_mysql cfg0) (ConnectedChan True)))"

text \<open>
  The state a first run leaves: the monitor is started, receives \<open>true\<close> from its
  connector and is stopped. \<open>Stop\<close> then sets \<open>config\<close> to nil and the next
  \<open>Start\<close> stores its configuration, here the same one; neither writes \<open>conn\<close> or
  \<open>connected\<close>, so this is also the state in which the next \<open>run\<close> begins.
\<close>

definition after_first_run :: Monitor_mysql where
  "after_first_run = fst (snd (run (NewMonitor_mysql cfg0) [ConnectedChan True, StopChan]))"

section \<open>Properties of Backoff\<close>

lemma f64_round_tenth: "f64_round (1 / 10) = 3602879701896397 / 2 ^ 55"
  by code_simp

lemma f64_round_third: "f64_round (1 / 3) = 6004799503160661 / 2 ^ 54"
  by code_simp

lemma f64_below_one_repr:
  "f64_round f64_below_one = f64_below_one \<and> 0 \<le> f64_below_one \<and> f64_below_one < 1"
  by code_simp

lemma Waits_first_seven:
  "fst (Waits [r0, r1, r2, r3, r4, r5, r6] (NewBackoff ra)) =
     [0, 1 * Second, 3 * Second, 7 * Second, 15 * Second, 31 * Second, 63 * Second]"
  by code_simp

lemma Wait_saturated:
  "7 \<le> try_count b \<Longrightarrow> snd (Wait r b) = b"
  by (simp add: Wait_def)

lemma Waits_seven_saturates:
  "try_count (snd (Waits [r0, r1, r2, r3, r4, r5, r6] (NewBackoff ra))) = 7"
  by code_simp

text \<open>
  Rounding does not cross an integer below \<open>2 ^ 53\<close>: every integer is a multiple of
  the unit in the last place there. So the plateau of \<open>Wait\<close> lies between 90 and 180
  seconds, both ends included.
\<close>

lemma floor_log2_le: "n < 2 ^ Suc k \<Longrightarrow> floor_log2 n \<le> k"
proof (induction k arbitrary: n)
  case 0
  then show ?case by (simp add: floor_log2.simps)
next
  case (Suc k)
  show ?case
  proof (cases "n < 2")
    case True
    then show ?thesis by (simp add: floor_log2.simps)
  next
    case False
    from Suc.prems have "n div 2 < 2 ^ Suc k" by auto
    from Suc.IH [OF this] False show ?thesis
      by (subst floor_log2.simps) simp
  qed
qed

lemma f64_exponent_le: "\<bar>x\<bar> < 2 ^ 53 \<Longrightarrow> f64_exponent x \<le> 52"
proof -
  assume a: "\<bar>x\<bar> < 2 ^ 53"
  show ?thesis
  proof (cases "1 \<le> \<bar>x\<bar>")
    case True
    from a have "\<lfloor>\<bar>x\<bar>\<rfloor> < 2 ^ 53"
      by (simp add: floor_less_iff)
    then have "nat \<lfloor>\<bar>x\<bar>\<rfloor> < 2 ^ Suc 52"
      by (simp add: nat_less_iff)
    from floor_log2_le [OF this] True show ?thesis
      by (simp add: f64_exponent_def Let_def)
  next
    case False
    then show ?thesis by (simp add: f64_exponent_def Let_def)
  qed
qed

lemma f64_ulp_divides:
  assumes "f64_exponent x \<le> 52"
  shows "\<exists>K::int. of_int B = of_int K * (2::rat) powi (f64_exponent x - 52)"
proof -
  define k where "k = nat (52 - f64_exponent x)"
  have "f64_exponent x - 52 = - int k"
    using assms by (simp add: k_def)
  then have "(2::rat) powi (f64_exponent x - 52) = inverse (2 ^ k)"
    by (simp add: power_int_minus)
  then have "of_int B = of_int (B * 2 ^ k) * (2::rat) powi (f64_exponent x - 52)"
    by simp
  then show ?thesis by blast
qed

lemma f64_round_cases:
  assumes "x \<noteq> 0"
  defines "u \<equiv> (2::rat) powi (f64_exponent x - 52)"
  shows "0 < u" and
    "f64_round x = of_int \<lfloor>x / u\<rfloor> * u \<or>
     (f64_round x = of_int (\<lfloor>x / u\<rfloor> + 1) * u \<and> of_int \<lfloor>x / u\<rfloor> < x / u)"
proof -
  show "0 < u" by (simp add: u_def)
  define n where "n = \<lfloor>x / u\<rfloor>"
  define d where "d = x / u - of_int n"
  have r: "f64_round x =
      (if d < 1 / 2 then of_int n
       else if 1 / 2 < d then of_int (n + 1)
       else if even n then of_int n else of_int (n + 1)) * u"
    using assms(1) by (simp add: f64_round_def Let_def u_def n_def d_def)
  show "f64_round x = of_int \<lfloor>x / u\<rfloor> * u \<or>
     (f64_round x = of_int (\<lfloor>x / u\<rfloor> + 1) * u \<and> of_int \<lfloor>x / u\<rfloor> < x / u)"
  proof (cases "d < 1 / 2")
    case True
    with r show ?thesis by (simp add: n_def)
  next
    case False
    then have "0 < d" by simp
    then have "of_int n < x / u" by (simp add: d_def)
    with r show ?thesis unfolding n_def [symmetric] by (simp split: if_splits)
  qed
qed

lemma f64_round_le_int:
  assumes "\<bar>x\<bar> < 2 ^ 53" and "x \<le> of_int B"
  shows "f64_round x \<le> of_int B"
proof (cases "x = 0")
  case True
  with assms(2) show ?thesis by (simp add: f64_round_def)
next
  case False
  define u where "u = (2::rat) powi (f64_exponent x - 52)"
  from f64_ulp_divides [OF f64_exponent_le [OF assms(1)], of B]
  obtain K :: int where K: "of_int B = of_int K * u" unfolding u_def by blast
  from f64_round_cases [OF False] have u: "0 < u" and
    c: "f64_round x = of_int \<lfloor>x / u\<rfloor> * u \<or>
     (f64_round x = of_int (\<lfloor>x / u\<rfloor> + 1) * u \<and> of_int \<lfloor>x / u\<rfloor> < x / u)"
    unfolding u_def by blast+
  from assms(2) K u have q: "x / u \<le> of_int K"
    by (simp add: pos_divide_le_eq)
  then have n: "\<lfloor>x / u\<rfloor> \<le> K" by (simp add: floor_le_iff)
  from c show ?thesis
  proof
    assume "f64_round x = of_int \<lfloor>x / u\<rfloor> * u"
    with n u K show ?thesis by (simp add: mult_right_mono)
  next
    assume h: "f64_round x = of_int (\<lfloor>x / u\<rfloor> + 1) * u \<and> of_int \<lfloor>x / u\<rfloor> < x / u"
    have "\<lfloor>x / u\<rfloor> < K"
    proof (rule ccontr)
      assume "\<not> \<lfloor>x / u\<rfloor> < K"
      with n have "\<lfloor>x / u\<rfloor> = K" by simp
      with h q show False by simp
    qed
    then have "\<lfloor>x / u\<rfloor> + 1 \<le> K" by simp
    then have "(of_int (\<lfloor>x / u\<rfloor> + 1) :: rat) \<le> of_int K" by (simp only: of_int_le_iff)
    with h u K show ?thesis by (simp add: mult_right_mono)
  qed
qed

lemma f64_round_ge_int:
  assumes "\<bar>x\<bar> < 2 ^ 53" and "of_int B \<le> x"
  shows "of_int B \<le> f64_round x"
proof (cases "x = 0")
  case True
  with assms(2) show ?thesis by (simp add: f64_round_def)
next
  case False
  define u where "u = (2::rat) powi (f64_exponent x - 52)"
  from f64_ulp_divides [OF f64_exponent_le [OF assms(1)], of B]
  obtain K :: int where K: "of_int B = of_int K * u" unfolding u_def by blast
  from f64_round_cases [OF False] have u: "0 < u" and
    c: "f64_round x = of_int \<lfloor>x / u\<rfloor> * u \<or>
     (f64_round x = of_int (\<lfloor>x / u\<rfloor> + 1) * u \<and> of_int \<lfloor>x / u\<rfloor> < x / u)"
    unfolding u_def by blast+
  from assms(2) K u have q: "of_int K \<le> x / u"
    by (simp add: pos_le_divide_eq)
  then have n: "K \<le> \<lfloor>x / u\<rfloor>" by (simp add: le_floor_iff)
  then have n': "(of_int K :: rat) \<le> of_int \<lfloor>x / u\<rfloor>" by (simp only: of_int_le_iff)
  from c show ?thesis
  proof
    assume "f64_round x = of_int \<lfloor>x / u\<rfloor> * u"
    with n' u K show ?thesis by (simp add: mult_right_mono)
  next
    assume h: "f64_round x = of_int (\<lfloor>x / u\<rfloor> + 1) * u \<and> of_int \<lfloor>x / u\<rfloor> < x / u"
    from n have "(of_int K :: rat) \<le> of_int (\<lfloor>x / u\<rfloor> + 1)" by simp
    with h u K show ?thesis by (simp add: mult_right_mono)
  qed
qed

lemma Wait_plateau_bounds:
  assumes "0 \<le> r" and "r < 1" and "7 \<le> try_count b"
  shows "\<exists>t. fst (Wait r b) = t * Second \<and> 90 \<le> t \<and> t \<le> 180"
proof -
  define p where "p = f64_mul 90 r"
  define y where "y = f64_add 90 p"
  have p0: "0 \<le> p" and p90: "p \<le> 90"
    using f64_round_ge_int [of "90 * r" 0] f64_round_le_int [of "90 * r" 90] assms(1,2)
    by (simp_all add: p_def f64_mul_def abs_if)
  have y90: "90 \<le> y" and y180: "y \<le> 180"
    using f64_round_ge_int [of "90 + p" 90] f64_round_le_int [of "90 + p" 180] p0 p90
    by (simp_all add: y_def f64_add_def abs_if)
  define t where "t = int_of_f64 y"
  have t: "90 \<le> t \<and> t \<le> 180"
    using y90 y180 by (simp add: t_def int_of_f64_def le_floor_iff floor_le_iff)
  then have "wrap64 (t * Second) = t * Second"
    by (simp add: wrap64_def Second_def)
  with assms(3) have "fst (Wait r b) = t * Second"
    by (simp add: Wait_def t_def y_def p_def)
  with t show ?thesis by blast
qed

text \<open>
  C1 (the waits of a fresh Backoff are 0, 1, 3, 7, 15, 31, 63 seconds and then lie in
  [90, 180) seconds, the counter staying at 7). The first seven waits and the saturation
  are as claimed (\<open>Waits_first_seven\<close>, \<open>Waits_seven_saturates\<close>,
  \<open>Wait_saturated\<close>), and a wait on the plateau is a whole number of seconds from 90
  to 180 (\<open>Wait_plateau_bounds\<close>). The upper end is reached: when \<open>rand.Float64()\<close> returns the
  largest binary64 number below 1, the product \<open>90 * rnd\<close> rounds to
  \<open>90 - 2 powi (-46)\<close>, the sum rounds to 180 (a tie, resolved to the even
  significand), and the eighth wait is 180 seconds, outside the interval that the
  comment in the source, \<open>[1m30s, 3m)\<close>, and the claim give.
\<close>

theorem Wait_plateau_reaches_180:
  "0 \<le> f64_below_one \<and> f64_below_one < 1 \<and> f64_round f64_below_one = f64_below_one \<and>
   fst (Waits (replicate 8 f64_below_one) (NewBackoff ra)) =
     [0, 1 * Second, 3 * Second, 7 * Second, 15 * Second, 31 * Second, 63 * Second,
      180 * Second]"
  by code_simp

lemma Success_first:
  "IsZero (lastSuccess b) \<Longrightarrow> Success now b = b\<lparr>lastSuccess := now\<rparr>"
  by (simp add: Success_def)

lemma Success_later_clock_forward:
  assumes "\<not> IsZero (lastSuccess b)" and "lastSuccess b \<le> NowFunc b now"
    and "0 \<le> resetAfter b"
  shows "Success now b = b"
proof -
  have "Sub (lastSuccess b) (NowFunc b now) \<le> 0"
    using assms(2) by (simp add: Sub_def Let_def minDuration_def maxDuration_def)
  with assms(1,3) show ?thesis
    by (simp add: Success_def)
qed

text \<open>
  C2 (after the first success, Success resets the counter to 0 exactly when the time
  since the recorded success exceeds resetAfter). The first call does only record the
  time (\<open>Success_first\<close>). A later call compares
  \<open>lastSuccess.Sub(NowFunc())\<close>, the elapsed time negated, with \<open>resetAfter\<close>:
  with a clock that does not run backwards and a reset window that is not negative the
  counter is never reset (\<open>Success_later_clock_forward\<close>). Here the recorded success
  is 10 seconds old, the window is 5 seconds, and the counter stays at 3.
\<close>

theorem Success_keeps_counter_after_window:
  "\<not> IsZero (lastSuccess flapping_backoff) \<and>
   Sub (new_year_2015 + 10 * Second) (lastSuccess flapping_backoff) = 10 * Second \<and>
   resetAfter flapping_backoff = 5 * Second \<and>
   try_count (Success (new_year_2015 + 10 * Second) flapping_backoff) = 3 \<and>
   lastSuccess (Success (new_year_2015 + 10 * Second) flapping_backoff) = new_year_2015"
  by code_simp

section \<open>Properties of the restart monitor\<close>






lemma Check_range_frame:
  "Check_range probe ks m = (es, m') \<Longrightarrow> t \<notin> set ks \<Longrightarrow>
     mysqlInstances m' t = mysqlInstances m t \<and> Notify t \<notin> set es"
proof (induction ks arbitrary: m es m')
  case Nil
  then show ?case by simp
next
  case (Cons k ks)
  from Cons.prems(2) have tk: "t \<noteq> k" and tks: "t \<notin> set ks" by auto
  show ?case
  proof (cases "mysqlInstances m k")
    case None
    with Cons.prems(1) have "Check_range probe ks m = (es, m')" by simp
    from Cons.IH[OF this tks] show ?thesis .
  next
    case (Some mi)
    obtain r mi' where chk: "CheckIfMysqlRestarted (probe k) mi = (r, mi')"
      by (cases "CheckIfMysqlRestarted (probe k) mi")
    define m1 where "m1 = m\<lparr>mysqlInstances := (mysqlInstances m)(k \<mapsto> mi')\<rparr>"
    obtain es1 m2 where rest: "Check_range probe ks m1 = (es1, m2)"
      by (cases "Check_range probe ks m1")
    from Cons.IH[OF rest tks] tk
    have ih: "mysqlInstances m2 t = mysqlInstances m t" "Notify t \<notin> set es1"
      by (simp_all add: m1_def)
    from Cons.prems(1) Some chk rest have "m' = m2" and "set es \<subseteq> set es1 \<union> {Error e | e. True} \<union> {DebugRestarted d | d. True} \<union> {Notify k}"
      by (auto simp: m1_def[symmetric] Let_def split: sum.splits if_splits)
    with ih tk show ?thesis by auto
  qed
qed

lemma Check_range_each:
  "Check_range probe ks m = (es, m') \<Longrightarrow> distinct ks \<Longrightarrow> t \<in> set ks \<Longrightarrow>
   mysqlInstances m t = Some mi \<Longrightarrow>
     mysqlInstances m' t = Some (snd (CheckIfMysqlRestarted (probe t) mi)) \<and>
     (\<forall>e. fst (CheckIfMysqlRestarted (probe t) mi) = Inl e \<longrightarrow>
          Error e \<in> set es \<and> Notify t \<notin> set es) \<and>
     (fst (CheckIfMysqlRestarted (probe t) mi) = Inr True \<longrightarrow> Notify t \<in> set es)"
proof (induction ks arbitrary: m es m')
  case Nil
  then show ?case by simp
next
  case (Cons k ks)
  from Cons.prems(2) have kks: "k \<notin> set ks" and dks: "distinct ks" by auto
  show ?case
  proof (cases "t = k")
    case True
    obtain r mi' where chk: "CheckIfMysqlRestarted (probe k) mi = (r, mi')"
      by (cases "CheckIfMysqlRestarted (probe k) mi")
    define m1 where "m1 = m\<lparr>mysqlInstances := (mysqlInstances m)(k \<mapsto> mi')\<rparr>"
    obtain es1 m2 where rest: "Check_range probe ks m1 = (es1, m2)"
      by (cases "Check_range probe ks m1")
    from Check_range_frame[OF rest kks]
    have fr: "mysqlInstances m2 k = Some mi'" "Notify k \<notin> set es1"
      by (simp_all add: m1_def)
    from Cons.prems(1,4) True chk rest
    have "m' = m2" and
      "case r of Inl e \<Rightarrow> es = Error e # es1
       | Inr b \<Rightarrow> if b then es = DebugRestarted (instance_DSN m1 mi') # Notify k # es1 else es = es1"
      by (auto simp: m1_def[symmetric] Let_def split: sum.splits if_splits)
    with fr True chk show ?thesis
      by (auto split: sum.splits if_splits)
  next
    case False
    with Cons.prems(3) have tks: "t \<in> set ks" by simp
    show ?thesis
    proof (cases "mysqlInstances m k")
      case None
      with Cons.prems(1) have "Check_range probe ks m = (es, m')" by simp
      from Cons.IH[OF this dks tks Cons.prems(4)] show ?thesis .
    next
      case (Some mk)
      obtain r mk' where chk: "CheckIfMysqlRestarted (probe k) mk = (r, mk')"
        by (cases "CheckIfMysqlRestarted (probe k) mk")
      define m1 where "m1 = m\<lparr>mysqlInstances := (mysqlInstances m)(k \<mapsto> mk')\<rparr>"
      obtain es1 m2 where rest: "Check_range probe ks m1 = (es1, m2)"
        by (cases "Check_range probe ks m1")
      have "mysqlInstances m1 t = Some mi"
        using Cons.prems(4) False by (simp add: m1_def)
      note ih = Cons.IH[OF rest dks tks this]
      from Cons.prems(1) Some chk rest
      have "m' = m2" and
        "case r of Inl e \<Rightarrow> es = Error e # es1
         | Inr b \<Rightarrow> if b then es = DebugRestarted (instance_DSN m1 mk') # Notify k # es1 else es = es1"
        by (auto simp: m1_def[symmetric] Let_def split: sum.splits if_splits)
      with ih False show ?thesis
        by (auto split: sum.splits if_splits)
    qed
  qed
qed







lemma Remove_last_subscriber:
  "subscribers_of m t = {c} \<Longrightarrow>
     mysqlInstances (Remove t c m) t = None \<and> connectors (Remove t c m) = connectors m"
  by (auto simp: subscribers_of_def Remove_def Let_def Subscribers_Empty_def
        Subscribers_Remove_def split: option.splits)

lemmas Add_simps = Add_def createMysqlInstance_def NewMysqlInstance_def NewMonitor_def
  NewSubscribers_def Subscribers_Add_def Let_def




text \<open>
  C4 (Remove of the last subscriber closes the connection opened for the target).
  As stated this fails: Remove calls the subscribers and deletes the record, and calls
  nothing on the connection. For the target \<open>a\<close>, added once, connection 0 is open
  before Remove of its only subscriber and open after it.
\<close>

theorem Remove_leaves_connection_open:
  "subscribers_of one_target ''a'' = {1} \<and>
   connectors one_target 0 = Some \<lparr>DSN = ''a'', opened = True\<rparr> \<and>
   mysqlInstances (Remove ''a'' 1 one_target) ''a'' = None \<and>
   connectors (Remove ''a'' 1 one_target) 0 = Some \<lparr>DSN = ''a'', opened = True\<rparr>"
  by (simp add: one_target_def subscribers_of_def Remove_def Subscribers_Remove_def
        Subscribers_Empty_def GlobalRemove_def Add_simps)

text \<open>
  C4, amended: Remove of the last subscriber of a target evicts its record and leaves
  every connection as it was.
\<close>

theorem Remove_last_evicts_keeps_connectors:
  "subscribers_of m t = {c} \<Longrightarrow>
     mysqlInstances (Remove t c m) t = None \<and> connectors (Remove t c m) = connectors m"
  by (rule Remove_last_subscriber)

theorem Remove_last_evicts_keeps_connectors_witness:
  "subscribers_of one_target ''a'' = {1} \<and>
   mysqlInstances (Remove ''a'' 1 one_target) ''a'' = None \<and>
   connectors (Remove ''a'' 1 one_target) = connectors one_target"
proof -
  have s: "subscribers_of one_target ''a'' = {1}"
    by (simp add: one_target_def subscribers_of_def Add_simps)
  from s Remove_last_evicts_keeps_connectors [OF s] show ?thesis by simp
qed

text \<open>
  C5 (for an unregistered target, a failure to open the connection is returned as the
  error and leaves the instance map unchanged; a channel is returned only when the
  connection was opened).
\<close>

theorem Add_open_failure:
  "mysqlInstances m dsn = None \<Longrightarrow>
     (\<forall>err. open_result = Some err \<longrightarrow>
        fst (Add open_result dsn m) = Inl err \<and>
        mysqlInstances (snd (Add open_result dsn m)) = mysqlInstances m) \<and>
     (\<forall>c. fst (Add open_result dsn m) = Inr c \<longrightarrow>
        open_result = None \<and>
        connectors (snd (Add open_result dsn m)) (conns_made m) =
          Some \<lparr>DSN = dsn, opened = True\<rparr>)"
  by (auto simp: Add_def createMysqlInstance_def NewMysqlInstance_def Subscribers_Add_def
        NewSubscribers_def Let_def split: option.splits)

theorem Add_open_failure_witness:
  "mysqlInstances NewMonitor ''a'' = None \<and>
   fst (Add (Some (ConnectError ''refused'')) ''a'' NewMonitor) = Inl (ConnectError ''refused'') \<and>
   mysqlInstances (snd (Add (Some (ConnectError ''refused'')) ''a'' NewMonitor)) =
     mysqlInstances NewMonitor \<and>
   fst (Add None ''a'' NewMonitor) = Inr 1 \<and>
   connectors (snd (Add None ''a'' NewMonitor)) (conns_made NewMonitor) =
     Some \<lparr>DSN = ''a'', opened = True\<rparr>"
proof -
  have n: "mysqlInstances NewMonitor ''a'' = None"
    by (simp add: NewMonitor_def)
  have a: "fst (Add None ''a'' NewMonitor) = Inr 1"
    by (simp add: Add_simps)
  from n a Add_open_failure [OF n, of "Some (ConnectError ''refused'')"]
    Add_open_failure [OF n, of None]
  show ?thesis by simp
qed

text \<open>
  C9 (Remove of a target that is not in the instance map changes nothing). The whole
  monitor is unchanged: the instance map, every subscriber set and the connections.
\<close>

theorem Remove_unknown_target:
  "mysqlInstances m dsn = None \<Longrightarrow> Remove dsn c m = m"
  by (simp add: Remove_def)

theorem Remove_unknown_target_witness:
  "mysqlInstances one_target ''b'' = None \<and> Remove ''b'' 1 one_target = one_target"
proof -
  have n: "mysqlInstances one_target ''b'' = None"
    by (simp add: one_target_def Add_simps)
  from n Remove_unknown_target [OF n] show ?thesis by simp
qed

text \<open>
  C6 (on a tick, a failed restart check of one target is logged, the target is neither
  notified nor removed, and every other target is still checked; a target whose check
  reports a restart has Notify called). For every target \<open>t\<close> of the map, whatever
  the order of the range and whatever the checks of the other targets return: the record
  of \<open>t\<close> after the tick is the one its check leaves; if its check fails, the error is
  logged, Notify is not called for \<open>t\<close> and its record is unchanged; if its check
  reports a restart, Notify is called for \<open>t\<close>.
\<close>

theorem Check_isolates_errors:
  assumes "distinct ks" and "set ks = dom (mysqlInstances m)"
    and "mysqlInstances m t = Some mi"
  shows "mysqlInstances (snd (Check probe ks m)) t =
           Some (snd (CheckIfMysqlRestarted (probe t) mi)) \<and>
         (\<forall>e. fst (CheckIfMysqlRestarted (probe t) mi) = Inl e \<longrightarrow>
            Error e \<in> set (fst (Check probe ks m)) \<and>
            Notify t \<notin> set (fst (Check probe ks m)) \<and>
            mysqlInstances (snd (Check probe ks m)) t = Some mi) \<and>
         (fst (CheckIfMysqlRestarted (probe t) mi) = Inr True \<longrightarrow>
            Notify t \<in> set (fst (Check probe ks m)))"
proof -
  obtain es m' where r: "Check_range probe ks m = (es, m')"
    by (cases "Check_range probe ks m")
  from assms(2,3) have t: "t \<in> set ks" by auto
  have c: "Check probe ks m = (Debug ''Check:call'' # es @ [Debug ''Check:return''], m')"
    by (simp add: Check_def r)
  have k: "\<And>e. fst (CheckIfMysqlRestarted (probe t) mi) = Inl e \<Longrightarrow>
             snd (CheckIfMysqlRestarted (probe t) mi) = mi"
    by (auto simp: CheckIfMysqlRestarted_def split: sum.splits)
  from Check_range_each [OF r assms(1) t assms(3)] k show ?thesis
    by (simp add: c)
qed


lemma two_targets_map:
  "mysqlInstances two_targets = [''a'' \<mapsto> instance_a, ''b'' \<mapsto> instance_b]"
  by (simp add: two_targets_def Add_simps Check_def CheckIfMysqlRestarted_def
        instance_a_def instance_b_def fun_upd_twist numeral_2_eq_2)

theorem Check_isolates_errors_witness:
  "distinct [''b'', ''a''] \<and> set [''b'', ''a''] = dom (mysqlInstances two_targets) \<and>
   mysqlInstances two_targets ''a'' = Some instance_a \<and>
   mysqlInstances two_targets ''b'' = Some instance_b \<and>
   fst (CheckIfMysqlRestarted (probe_a_fails ''a'') instance_a) = Inl (FingerprintError ''a'') \<and>
   fst (CheckIfMysqlRestarted (probe_a_fails ''b'') instance_b) = Inr True \<and>
   Error (FingerprintError ''a'') \<in> set (fst (Check probe_a_fails [''b'', ''a''] two_targets)) \<and>
   Notify ''a'' \<notin> set (fst (Check probe_a_fails [''b'', ''a''] two_targets)) \<and>
   mysqlInstances (snd (Check probe_a_fails [''b'', ''a''] two_targets)) ''a'' = Some instance_a \<and>
   Notify ''b'' \<in> set (fst (Check probe_a_fails [''b'', ''a''] two_targets)) \<and>
   mysqlInstances (snd (Check probe_a_fails [''b'', ''a''] two_targets)) ''b'' =
     Some (instance_b\<lparr>lastFingerprint := Some 5\<rparr>)"
proof -
  have d: "distinct [''b'', ''a'']" by simp
  have s: "set [''b'', ''a''] = dom (mysqlInstances two_targets)"
    by (auto simp: two_targets_map)
  have a: "mysqlInstances two_targets ''a'' = Some instance_a"
    by (simp add: two_targets_map)
  have b: "mysqlInstances two_targets ''b'' = Some instance_b"
    by (simp add: two_targets_map)
  have ca: "CheckIfMysqlRestarted (probe_a_fails ''a'') instance_a =
              (Inl (FingerprintError ''a''), instance_a)"
    by (simp add: CheckIfMysqlRestarted_def probe_a_fails_def)
  have cb: "CheckIfMysqlRestarted (probe_a_fails ''b'') instance_b =
              (Inr True, instance_b\<lparr>lastFingerprint := Some 5\<rparr>)"
    by (simp add: CheckIfMysqlRestarted_def probe_a_fails_def instance_b_def)
  from Check_isolates_errors [OF d s a, of probe_a_fails]
       Check_isolates_errors [OF d s b, of probe_a_fails] d s a b
  show ?thesis
    by (simp add: ca cb)
qed

section \<open>Properties of the metrics monitor\<close>

lemma select_send_bound: "0 \<le> t \<Longrightarrow> select_send a f t = (s, w) \<Longrightarrow> 0 \<le> w \<and> w \<le> t"
  by (auto simp: select_send_def split: option.splits if_splits)

lemma select_send_timeout:
  "not_accepted_within env t \<Longrightarrow> select_send (accept_after env) f t = (False, t)"
  by (auto simp: select_send_def not_accepted_within_def split: option.splits)

lemma run_select_tick_state:
  "run_select m (TickChan now env) = (out, m', r) \<Longrightarrow> m' = m \<and> \<not> r"
  by (auto simp: Let_def split: if_splits)

lemma run_select_skip:
  "\<not> connected m \<Longrightarrow> run_select m (TickChan now env) = ([], m, False)"
  by simp

lemma run_loop_not_connected:
  "\<not> connected m \<Longrightarrow> ConnectedChan True \<notin> set es \<Longrightarrow>
     (\<forall>e \<in> set (fst (run_loop m es)). \<not> collecting e)"
proof (induction es arbitrary: m)
  case Nil
  then show ?case by simp
next
  case (Cons e es)
  show ?case
  proof (cases e)
    case (TickChan now env)
    with Cons show ?thesis by (simp split: prod.splits)
  next
    case (ConnectedChan b)
    with Cons.prems have b: "\<not> b" by auto
    have "\<not> connected (m\<lparr>connected := False\<rparr>)" by simp
    from Cons.IH [OF this] Cons.prems(2) b ConnectedChan show ?thesis
      by (simp split: prod.splits)
  next
    case StopChan
    then show ?thesis by simp
  qed
qed

lemma run_select_not_sent_empty: "\<forall>e \<in> set (fst (run_select m c)). \<not> sent_empty e"
  by (cases c) (auto simp: Let_def split: prod.splits bool.splits)

lemma run_loop_not_sent_empty: "\<forall>e \<in> set (fst (run_loop m es)). \<not> sent_empty e"
proof (induction es arbitrary: m)
  case Nil
  then show ?case by simp
next
  case (Cons c es)
  obtain out m' r where s: "run_select m c = (out, m', r)"
    by (cases "run_select m c")
  with run_select_not_sent_empty [of m c] have o: "\<forall>e \<in> set out. \<not> sent_empty e" by simp
  show ?case
  proof (cases r)
    case True
    with s o show ?thesis by simp
  next
    case False
    with s o Cons.IH [of m'] show ?thesis by (auto split: prod.splits)
  qed
qed

lemma run_select_waited:
  "Waited w \<in> set (fst (run_select m c)) \<Longrightarrow> 0 \<le> w \<and> w \<le> send_timeout"
proof (cases c)
  case (TickChan now env)
  assume w: "Waited w \<in> set (fst (run_select m c))"
  obtain s w' where sw: "select_send (accept_after env) (send_first env) send_timeout = (s, w')"
    by (cases "select_send (accept_after env) (send_first env) send_timeout")
  have "0 \<le> send_timeout" by (simp add: send_timeout_def Millisecond_def)
  from select_send_bound [OF this sw] have b: "0 \<le> w' \<and> w' \<le> send_timeout" .
  from w TickChan sw have "w = w'"
    by (cases s) (auto simp: Let_def split: if_splits)
  with b show ?thesis by simp
next
  case (ConnectedChan b)
  assume "Waited w \<in> set (fst (run_select m c))"
  with ConnectedChan show ?thesis by (simp split: if_splits)
next
  case StopChan
  assume "Waited w \<in> set (fst (run_select m c))"
  with StopChan show ?thesis by (simp split: if_splits)
qed

lemma run_loop_waited:
  "\<forall>w. Waited w \<in> set (fst (run_loop m es)) \<longrightarrow> 0 \<le> w \<and> w \<le> send_timeout"
proof (induction es arbitrary: m)
  case Nil
  then show ?case by simp
next
  case (Cons c es)
  obtain out m' r where s: "run_select m c = (out, m', r)"
    by (cases "run_select m c")
  with run_select_waited [of _ m c]
  have o: "\<forall>w. Waited w \<in> set out \<longrightarrow> 0 \<le> w \<and> w \<le> send_timeout" by simp
  show ?case
  proof (cases r)
    case True
    with s o show ?thesis by simp
  next
    case False
    with s o Cons.IH [of m'] show ?thesis by (auto split: prod.splits)
  qed
qed

lemmas tick_simps = connected0_def NewMonitor_mysql_def Let_def collect_def extractors_def
  append_metrics_def cfg0_def prefix_of_def

text \<open>
  C7 (delivery of a collection waits at most 500 milliseconds; when the channel does not
  take it in that time the collection is dropped, the loss is logged and the loop goes
  on). On a tick of a connected monitor with at least one metric: the time spent in the
  \<open>select\<close> is at most 500 milliseconds; when the channel does not take the value
  within 500 milliseconds nothing is sent, the loss is logged, the state is unchanged (it
  has no place for a collection), and the loop goes on with the cases that follow.
\<close>

theorem delivery_timeout_drops:
  "(\<forall>w. Waited w \<in> set (fst (run m0 es)) \<longrightarrow> 0 \<le> w \<and> w \<le> 500 * Millisecond) \<and>
   (connected m \<and> Metrics (collect (config m) env now) \<noteq> [] \<and>
    not_accepted_within env (500 * Millisecond) \<longrightarrow>
      run_select m (TickChan now env) =
        ([StatusUpdate ''Running''] @ map Query (extractors (config m))
         @ [Waited (500 * Millisecond),
            LogDebug ''Lost MySQL metrics; timeout spooling after 500ms'',
            StatusUpdate ''Ready''], m, False) \<and>
      (\<forall>rest. run_loop m (TickChan now env # rest) =
         (case run_loop m rest of (outs, m', r) \<Rightarrow>
            (fst (run_select m (TickChan now env)) @ outs, m', r))))"
proof -
  have t: "send_timeout = 500 * Millisecond" by (simp add: send_timeout_def)
  have 1: "\<forall>w. Waited w \<in> set (fst (run m0 es)) \<longrightarrow> 0 \<le> w \<and> w \<le> 500 * Millisecond"
    using run_loop_waited [of m0 es] by (auto simp: run_def t split: prod.splits)
  have 2: "run_select m (TickChan now env) =
              ([StatusUpdate ''Running''] @ map Query (extractors (config m))
               @ [Waited (500 * Millisecond),
                  LogDebug ''Lost MySQL metrics; timeout spooling after 500ms'',
                  StatusUpdate ''Ready''], m, False)"
    if "connected m" and "Metrics (collect (config m) env now) \<noteq> []"
      and "not_accepted_within env (500 * Millisecond)"
    using that(1,2) select_send_timeout [OF that(3), of "send_first env"]
    by (simp add: Let_def t)
  have 3: "run_loop m (TickChan now env # rest) =
               (case run_loop m rest of (outs, m', r) \<Rightarrow>
                  (fst (run_select m (TickChan now env)) @ outs, m', r))" for rest
    using run_select_tick_state [of m now env]
    by (cases "run_select m (TickChan now env)") (auto split: prod.splits)
  from 1 2 3 show ?thesis by blast
qed

theorem delivery_timeout_drops_witness:
  "connected connected0 \<and> Metrics (collect (config connected0) env_never 7) \<noteq> [] \<and>
   not_accepted_within env_never (500 * Millisecond) \<and>
   run_select connected0 (TickChan 7 env_never) =
     ([StatusUpdate ''Running'', Query ShowStatusMetrics, Waited (500 * Millisecond),
       LogDebug ''Lost MySQL metrics; timeout spooling after 500ms'', StatusUpdate ''Ready''],
      connected0, False) \<and>
   fst (run_loop connected0 [TickChan 7 env_never, TickChan 8 env_ready]) =
     fst (run_select connected0 (TickChan 7 env_never))
     @ fst (run_select connected0 (TickChan 8 env_ready))"
proof -
  have a: "connected connected0"
    by (simp add: connected0_def)
  have b: "Metrics (collect (config connected0) env_never 7) \<noteq> []"
    by (simp add: tick_simps env_never_def)
  have c: "extractors (config connected0) = [ShowStatusMetrics]"
    by (simp add: tick_simps)
  have d: "not_accepted_within env_never (500 * Millisecond)"
    by (simp add: not_accepted_within_def env_never_def)
  have e: "run_loop connected0 [TickChan 8 env_ready] =
             (fst (run_select connected0 (TickChan 8 env_ready)), connected0, False)"
    by (simp add: Let_def split: prod.splits bool.splits)
  note f = delivery_timeout_drops [of connected0 "[]" connected0 env_never 7]
  from f a b d have g: "run_select connected0 (TickChan 7 env_never) =
     ([StatusUpdate ''Running''] @ map Query (extractors (config connected0))
      @ [Waited (500 * Millisecond),
         LogDebug ''Lost MySQL metrics; timeout spooling after 500ms'',
         StatusUpdate ''Ready''], connected0, False)"
    by blast
  from f a b d have "run_loop connected0 (TickChan 7 env_never # [TickChan 8 env_ready]) =
     (case run_loop connected0 [TickChan 8 env_ready] of (outs, m', r) \<Rightarrow>
        (fst (run_select connected0 (TickChan 7 env_never)) @ outs, m', r))"
    by blast
  then have h: "fst (run_loop connected0 [TickChan 7 env_never, TickChan 8 env_ready]) =
     fst (run_select connected0 (TickChan 7 env_never))
     @ fst (run_select connected0 (TickChan 8 env_ready))"
    by (simp only: e prod.case fst_conv)
  from a b d g h c show ?thesis
    by (simp del: run_select.simps run_loop.simps)
qed

text \<open>
  While the flag is clear, as \<open>NewMonitor\<close> leaves it, and no \<open>true\<close> arrives, a
  run executes no extractor, waits on no send and sends nothing; and a tick on which any
  of these happens finds the flag set.
\<close>

lemma run_flag_clear_skips_ticks:
  "(\<not> connected m0 \<and> ConnectedChan True \<notin> set es \<longrightarrow>
      (\<forall>e \<in> set (fst (run m0 es)). \<not> collecting e)) \<and>
   \<not> connected (NewMonitor_mysql cfg) \<and>
   ((\<exists>e \<in> set (fst (run_select m (TickChan now env))). collecting e) \<longrightarrow> connected m)"
proof -
  have "\<not> connected (NewMonitor_mysql cfg)" by (simp add: NewMonitor_mysql_def)
  with run_loop_not_connected [of m0 es] show ?thesis
    by (auto simp: run_def split: prod.splits)
qed

text \<open>
  C8 (in a loop that has not yet received \<open>true\<close> from its connector every tick is
  skipped: nothing is gathered and nothing is sent before the first \<open>true\<close>). This
  holds for the first loop of a monitor (\<open>run_flag_clear_skips_ticks\<close>) and fails for
  a later one: \<open>connected\<close> is a field of the struct, and neither the return of
  \<open>run\<close> nor \<open>Stop\<close> nor \<open>Start\<close> clears it. A monitor that was connected and
  is stopped and started again begins its loop with the flag set; the tick below, the
  first case of that loop, with no \<open>true\<close> received in it, runs the extractor (on the
  connection that the first run closed on return, so that nothing is gathered).
\<close>

theorem restarted_run_honours_tick:
  "run (NewMonitor_mysql cfg0) [ConnectedChan True, StopChan] =
     ([GoConnect, StatusUpdate ''Ready'', LogDebug ''Connected'', ConnClose,
       StatusUpdate ''Stopped'', SyncDone],
      after_first_run, True) \<and>
   after_first_run = \<lparr>config = cfg0, conn = True, connected = True\<rparr> \<and>
   ConnectedChan True \<notin> set [TickChan 7 env_nothing] \<and>
   fst (run after_first_run [TickChan 7 env_nothing]) =
     [GoConnect, StatusUpdate ''Running'', Query ShowStatusMetrics, LogDebug ''No metrics'',
      StatusUpdate ''Ready'']"
  by (simp add: after_first_run_def run_def NewMonitor_mysql_def Let_def collect_def
        extractors_def append_metrics_def cfg0_def prefix_of_def env_nothing_def)

text \<open>
  C10 (a tick that gathers no metric makes no delivery attempt: only \<open>No metrics\<close>
  is logged, and no collection with an empty metric list is ever sent).
\<close>

theorem no_metrics_no_delivery:
  "(connected m \<and> Metrics (collect (config m) env now) = [] \<longrightarrow>
      fst (run_select m (TickChan now env)) =
        [StatusUpdate ''Running''] @ map Query (extractors (config m))
        @ [LogDebug ''No metrics'', StatusUpdate ''Ready'']) \<and>
   (\<forall>e \<in> set (fst (run m0 es)). \<not> sent_empty e)"
  using run_loop_not_sent_empty [of m0 es]
  by (auto simp: run_def Let_def split: prod.splits)

theorem no_metrics_no_delivery_witness:
  "connected connected0 \<and> Metrics (collect (config connected0) env_nothing 7) = [] \<and>
   fst (run_select connected0 (TickChan 7 env_nothing)) =
     [StatusUpdate ''Running'', Query ShowStatusMetrics, LogDebug ''No metrics'',
      StatusUpdate ''Ready'']"
proof -
  have a: "connected connected0"
    by (simp add: connected0_def)
  have b: "Metrics (collect (config connected0) env_nothing 7) = []"
    by (simp add: tick_simps env_nothing_def)
  have c: "extractors (config connected0) = [ShowStatusMetrics]"
    by (simp add: tick_simps)
  from a b c no_metrics_no_delivery [of connected0 env_nothing 7 connected0 "[]"]
  show ?thesis by simp
qed

end
